theory Spec2Isabelle
  imports Main "HOL-Library.Word"
begin

section \<open>Data model\<close>

text \<open>
  The converter is Python. Its integers are unbounded (\<open>int\<close>), its optional fields are
  \<open>option\<close>s, and its parameter arrays are numpy float32 arrays. A float32 value is
  represented by its IEEE-754 bit pattern (a \<open>32 word\<close>): the serializer only copies the
  values to the file and tests them against zero, it never computes with them. A
  one-dimensional array is the list of its elements; the weights tensor is the list of its
  elements in flattened (C) order, so that numpy's \<open>size\<close> is the length of the list.
\<close>

type_synonym byte = "8 word"
type_synonym float32 = "32 word"
type_synonym ndarray = "float32 list"

text \<open>
  \<open>LayerInfo\<close> of \<open>model_parsers/base_parser.py\<close>, field by field, with the defaults of the
  dataclass in \<open>LayerInfo_default\<close>. The two metadata fields \<open>input_shape\<close> and
  \<open>output_shape\<close> are read by no function modelled here and are left out.
\<close>

record LayerInfo =
  name :: string
  type :: string
  index :: int
  filters :: "int option"
  channels :: "int option"
  kernel_size :: "int option"
  stride :: "int option"
  padding :: "int option"
  groups :: "int option"
  activation :: "string option"
  batch_normalize :: bool
  weights :: "ndarray option"
  biases :: "ndarray option"
  bn_gamma :: "ndarray option"
  bn_beta :: "ndarray option"
  bn_mean :: "ndarray option"
  bn_variance :: "ndarray option"
  pool_size :: "int option"
  pool_stride :: "int option"
  layers :: "int list option"

definition LayerInfo_default :: "string \<Rightarrow> string \<Rightarrow> int \<Rightarrow> LayerInfo" where
  "LayerInfo_default nm ty idx =
     \<lparr> name = nm, type = ty, index = idx,
       filters = None, channels = None, kernel_size = None, stride = None,
       padding = None, groups = None, activation = None, batch_normalize = False,
       weights = None, biases = None,
       bn_gamma = None, bn_beta = None, bn_mean = None, bn_variance = None,
       pool_size = None, pool_stride = None, layers = None \<rparr>"

text \<open>
  Every \<open>raise\<close> of the modelled functions is a value of \<open>error\<close>. The constructors carry
  what the message of the exception interpolates: the layer name and, where the message
  has them, the expected and the actual count.
\<close>

datatype error =
    RuntimeError_not_opened
  | ValueError_not_convolutional string
  | ValueError_missing_weights string
  | TypeError_zeros_shape
  | ValueError_negative_dimensions
  | ValueError_biases_size_mismatch string "int option" nat
  | ValueError_bn_parameters_missing string
  | ValueError_scales_size_mismatch string
  | ValueError_mean_size_mismatch string
  | ValueError_variance_size_mismatch string
  | ValueError_weights_size_mismatch string nat nat
  | StructError
  | ValueError_header_too_short
  | IndexError

section \<open>Byte encodings\<close>

text \<open>
  \<open>struct.pack\<close> with the formats \<open>i\<close> and \<open>q\<close> and numpy's \<open>tofile\<close>/\<open>fromfile\<close> use
  the byte order of the host. The model fixes a little-endian host: \<open>le_bytes n x\<close> is the
  \<open>n\<close>-byte two's complement encoding of \<open>x\<close>, least significant byte first, and
  \<open>le_int\<close> reads such a sequence back as an unsigned number.
\<close>

definition le_bytes :: "nat \<Rightarrow> int \<Rightarrow> byte list" where
  "le_bytes n x = map (\<lambda>i. word_of_int (x div 256 ^ i)) [0..<n]"

definition le_int :: "byte list \<Rightarrow> int" where
  "le_int bs = horner_sum uint 256 bs"

definition signed_of :: "nat \<Rightarrow> int \<Rightarrow> int" where
  "signed_of n u = (if 2 ^ (8 * n - 1) \<le> u then u - 2 ^ (8 * n) else u)"

definition in_int32 :: "int \<Rightarrow> bool" where
  "in_int32 x \<longleftrightarrow> - (2 ^ 31) \<le> x \<and> x < 2 ^ 31"

definition in_int64 :: "int \<Rightarrow> bool" where
  "in_int64 x \<longleftrightarrow> - (2 ^ 63) \<le> x \<and> x < 2 ^ 63"

text \<open>\<open>struct.pack('i', x)\<close> and \<open>struct.pack('q', x)\<close>: \<open>struct.error\<close> out of range.\<close>

definition pack_i :: "int \<Rightarrow> error + byte list" where
  "pack_i x = (if in_int32 x then Inr (le_bytes 4 x) else Inl StructError)"

definition pack_q :: "int \<Rightarrow> error + byte list" where
  "pack_q x = (if in_int64 x then Inr (le_bytes 8 x) else Inl StructError)"

definition pack_iii :: "int \<Rightarrow> int \<Rightarrow> int \<Rightarrow> error + byte list" where
  "pack_iii a b c =
     (if in_int32 a \<and> in_int32 b \<and> in_int32 c
      then Inr (le_bytes 4 a @ le_bytes 4 b @ le_bytes 4 c)
      else Inl StructError)"

text \<open>
  \<open>ndarray.tofile\<close> of a float32 array: four bytes per element, so that \<open>nbytes\<close> is the
  number of bytes written.
\<close>

definition tofile :: "ndarray \<Rightarrow> byte list" where
  "tofile a = concat (map (\<lambda>x. le_bytes 4 (uint x)) a)"

text \<open>
  \<open>np.fromfile(f, dtype, count)\<close> on an integer dtype of \<open>w\<close> bytes: as many complete items
  as the stream still holds, at most \<open>count\<close>; the result is the items and the rest of the
  stream (the new file position).
\<close>

definition fromfile_int :: "nat \<Rightarrow> nat \<Rightarrow> byte list \<Rightarrow> int list \<times> byte list" where
  "fromfile_int w count bs =
     (let k = min count (length bs div w)
      in (map (\<lambda>j. signed_of w (le_int (take w (drop (j * w) bs)))) [0..<k],
          drop (k * w) bs))"

section \<open>Binary weights serializer (\<open>darknet_writer.py\<close>)\<close>

text \<open>
  The state of a \<open>DarknetWeightsWriter\<close>: \<open>file_handle\<close> tells whether \<open>self.file_handle\<close>
  is an open handle, \<open>output_file\<close> is the content of the file at \<open>output_path\<close> as
  written through that handle (what the file holds once the handle has flushed its buffer,
  at \<open>close()\<close> at the latest), and \<open>total_bytes_written\<close> is the counter. Every method
  returns the state it leaves behind together with the exception it raised, if any: bytes
  written before a \<open>raise\<close> stay in the file.
\<close>

record DarknetWeightsWriter =
  file_handle :: bool
  output_file :: "byte list"
  total_bytes_written :: nat

definition emit :: "byte list \<Rightarrow> DarknetWeightsWriter \<Rightarrow> DarknetWeightsWriter" where
  "emit bs w = w\<lparr> output_file := output_file w @ bs,
                  total_bytes_written := total_bytes_written w + length bs \<rparr>"

text \<open>
  \<open>open()\<close> on a writer that holds no open handle: mode \<open>wb\<close> creates or truncates the file,
  and the counter is reset. On a writer whose handle is still open, \<open>open()\<close> replaces the
  handle without closing it: the file is truncated, the bytes that the old handle still
  buffers are flushed into the truncated file when the old handle is discarded, and the new
  handle then writes over them from position 0. The state above records neither a buffer
  nor a position, so this case has no result here (\<open>None\<close>); every statement about
  \<open>open_writer\<close> and \<open>write_model\<close> below is about a writer without an open handle, as
  \<open>__init__\<close> and \<open>close()\<close> leave it.
\<close>

definition open_writer :: "DarknetWeightsWriter \<Rightarrow> DarknetWeightsWriter option" where
  "open_writer w =
     (if file_handle w then None
      else Some (w\<lparr> file_handle := True, output_file := [], total_bytes_written := 0 \<rparr>))"

definition close_writer :: "DarknetWeightsWriter \<Rightarrow> DarknetWeightsWriter" where
  "close_writer w = (if file_handle w then w\<lparr> file_handle := False \<rparr> else w)"

definition write_header ::
  "DarknetWeightsWriter \<Rightarrow> int \<Rightarrow> int \<Rightarrow> int \<Rightarrow> int \<Rightarrow> DarknetWeightsWriter \<times> error option" where
  "write_header w major minor revision seen =
     (if \<not> file_handle w then (w, Some RuntimeError_not_opened)
      else case pack_iii major minor revision of
        Inl e \<Rightarrow> (w, Some e)
      | Inr header_data \<Rightarrow>
          let w1 = emit header_data w in
          if major * 10 + minor \<ge> 2 then
            (case pack_q seen of
               Inl e \<Rightarrow> (w1, Some e)
             | Inr seen_data \<Rightarrow> (emit seen_data w1, None))
          else
            (case pack_i seen of
               Inl e \<Rightarrow> (w1, Some e)
             | Inr seen_data \<Rightarrow> (emit seen_data w1, None)))"

text \<open>
  \<open>write_convolutional_layer\<close>, statement by statement: \<open>get_biases\<close> is the choice
  between the biases of the layer and \<open>np.zeros(n)\<close>, \<open>write_bn\<close> the body of
  \<open>if layer.batch_normalize\<close>, \<open>write_weights\<close> the final check and write, and
  \<open>write_rest\<close> everything after the biases have been written. \<open>np.zeros(n)\<close> raises
  for a negative \<open>n\<close> and for \<open>n = None\<close>; \<open>biases.shape[0] != n\<close> compares the length
  with the optional \<open>filters\<close> field. \<open>num_weights\<close> is read from the weights buffer
  itself.
\<close>

definition shape0_differs :: "ndarray \<Rightarrow> int option \<Rightarrow> bool" where
  "shape0_differs a n \<longleftrightarrow> n \<noteq> Some (int (length a))"

definition write_bn ::
  "DarknetWeightsWriter \<Rightarrow> LayerInfo \<Rightarrow> DarknetWeightsWriter \<times> error option" where
  "write_bn w layer =
     (case (bn_gamma layer, bn_mean layer, bn_variance layer) of
        (Some scales, Some mean, Some variance) \<Rightarrow>
          if shape0_differs scales (filters layer)
          then (w, Some (ValueError_scales_size_mismatch (name layer)))
          else let w1 = emit (tofile scales) w in
          if shape0_differs mean (filters layer)
          then (w1, Some (ValueError_mean_size_mismatch (name layer)))
          else let w2 = emit (tofile mean) w1 in
          if shape0_differs variance (filters layer)
          then (w2, Some (ValueError_variance_size_mismatch (name layer)))
          else (emit (tofile variance) w2, None)
      | _ \<Rightarrow> (w, Some (ValueError_bn_parameters_missing (name layer))))"

definition write_weights ::
  "DarknetWeightsWriter \<Rightarrow> LayerInfo \<Rightarrow> ndarray \<Rightarrow> nat \<Rightarrow> DarknetWeightsWriter \<times> error option" where
  "write_weights w layer wts num_weights =
     (if length wts \<noteq> num_weights
      then (w, Some (ValueError_weights_size_mismatch (name layer) num_weights (length wts)))
      else (emit (tofile wts) w, None))"

definition zeros :: "int option \<Rightarrow> error + ndarray" where
  "zeros n = (case n of
                None \<Rightarrow> Inl TypeError_zeros_shape
              | Some k \<Rightarrow> if k < 0 then Inl ValueError_negative_dimensions
                          else Inr (replicate (nat k) 0))"

definition get_biases :: "LayerInfo \<Rightarrow> error + ndarray" where
  "get_biases layer = (case biases layer of None \<Rightarrow> zeros (filters layer) | Some b \<Rightarrow> Inr b)"

definition write_rest ::
  "DarknetWeightsWriter \<Rightarrow> LayerInfo \<Rightarrow> ndarray \<Rightarrow> nat \<Rightarrow> DarknetWeightsWriter \<times> error option" where
  "write_rest w layer wts num_weights =
     (if batch_normalize layer then
        (case write_bn w layer of
           (w2, Some e) \<Rightarrow> (w2, Some e)
         | (w2, None) \<Rightarrow> write_weights w2 layer wts num_weights)
      else write_weights w layer wts num_weights)"

definition write_convolutional_layer ::
  "DarknetWeightsWriter \<Rightarrow> LayerInfo \<Rightarrow> DarknetWeightsWriter \<times> error option" where
  "write_convolutional_layer w layer =
     (if \<not> file_handle w then (w, Some RuntimeError_not_opened)
      else if type layer \<noteq> ''convolutional''
      then (w, Some (ValueError_not_convolutional (name layer)))
      else case weights layer of
        None \<Rightarrow> (w, Some (ValueError_missing_weights (name layer)))
      | Some wts \<Rightarrow>
          (let n = filters layer;
               num_weights = length wts
           in case get_biases layer of
             Inl e \<Rightarrow> (w, Some e)
           | Inr b \<Rightarrow>
               if shape0_differs b n
               then (w, Some (ValueError_biases_size_mismatch (name layer) n (length b)))
               else write_rest (emit (tofile b) w) layer wts num_weights))"

text \<open>
  \<open>write_layers\<close> selects the convolutional layers and writes them in order; the first
  exception ends the loop (\<open>write_each\<close>).
\<close>

fun write_each ::
  "DarknetWeightsWriter \<Rightarrow> LayerInfo list \<Rightarrow> DarknetWeightsWriter \<times> error option" where
  "write_each w [] = (w, None)"
| "write_each w (l # ls) =
     (case write_convolutional_layer w l of
        (w1, Some e) \<Rightarrow> (w1, Some e)
      | (w1, None) \<Rightarrow> write_each w1 ls)"

definition write_layers ::
  "DarknetWeightsWriter \<Rightarrow> LayerInfo list \<Rightarrow> DarknetWeightsWriter \<times> error option" where
  "write_layers w ls = write_each w (filter (\<lambda>l. type l = ''convolutional'') ls)"

text \<open>
  \<open>write_model\<close>: \<open>open()\<close>, then the header and the layers; the \<open>finally\<close> clause closes
  the file on both paths. It has a result where \<open>open_writer\<close> has one.
\<close>

definition write_model ::
  "DarknetWeightsWriter \<Rightarrow> LayerInfo list \<Rightarrow> int \<Rightarrow> int \<Rightarrow> int \<Rightarrow> int
     \<Rightarrow> (DarknetWeightsWriter \<times> error option) option" where
  "write_model w ls major minor revision seen =
     (case open_writer w of
        None \<Rightarrow> None
      | Some w0 \<Rightarrow>
          Some (case write_header w0 major minor revision seen of
                  (w1, Some e) \<Rightarrow> (close_writer w1, Some e)
                | (w1, None) \<Rightarrow>
                    (case write_layers w1 ls of (w2, r) \<Rightarrow> (close_writer w2, r))))"

section \<open>Header reader (\<open>utils.py\<close>)\<close>

text \<open>
  \<open>verify_darknet_weights_header\<close> on the content of the file: five int32 items are read
  first; for the newer format the file is read again from the start, three int32 items and
  one int64 item, whose element 0 is taken.
\<close>

definition verify_darknet_weights_header :: "byte list \<Rightarrow> error + (int \<times> int \<times> int \<times> int)" where
  "verify_darknet_weights_header f =
     (let header = fst (fromfile_int 4 5 f) in
      if length header < 5 then Inl ValueError_header_too_short
      else
        let major = header ! 0; minor = header ! 1; revision = header ! 2 in
        if major * 10 + minor \<ge> 2 then
          (let pos = snd (fromfile_int 4 3 f) in
           case fst (fromfile_int 8 1 pos) of
             [] \<Rightarrow> Inl IndexError
           | seen # _ \<Rightarrow> Inr (major, minor, revision, seen))
        else Inr (major, minor, revision, header ! 3))"

section \<open>Model validation (\<open>model_parsers/base_parser.py\<close>)\<close>

text \<open>
  \<open>BaseParser.validate\<close> collects error messages; the model is valid when there are none.
  \<open>input_shape\<close> is the optional shape tuple of the parser. \<open>validate_conv\<close> is the body of
  the loop over the convolutional layers.
\<close>

definition get_conv_layers :: "LayerInfo list \<Rightarrow> LayerInfo list" where
  "get_conv_layers ls = filter (\<lambda>layer. type layer = ''convolutional'') ls"

definition validate_conv :: "LayerInfo \<Rightarrow> string list" where
  "validate_conv layer =
     (if weights layer = None
      then [''Layer '' @ name layer @ '': weights not extracted''] else [])
     @ (if batch_normalize layer then
          (if bn_gamma layer = None
           then [''Layer '' @ name layer @ '': BN gamma not found''] else [])
          @ (if bn_mean layer = None
             then [''Layer '' @ name layer @ '': BN mean not found''] else [])
          @ (if bn_variance layer = None
             then [''Layer '' @ name layer @ '': BN variance not found''] else [])
        else [])"

definition validate :: "LayerInfo list \<Rightarrow> (int \<times> int \<times> int) option \<Rightarrow> bool \<times> string list" where
  "validate ls input_shape =
     (let errors =
        (if ls = [] then [''No layers found in model''] else [])
        @ (if input_shape = None then [''Input shape not determined''] else [])
        @ concat (map validate_conv (get_conv_layers ls))
      in (errors = [], errors))"

section \<open>Topology reconciler (\<open>model_parsers/keras_parser.py\<close>)\<close>

text \<open>
  \<open>re.search(r'_(\d+)$', name)\<close>, group 1. On the 8-bit characters of \<open>string\<close> the class
  \<open>\d\<close> is \<open>0\<close> to \<open>9\<close>. The digits are preceded by an underscore and run to the end of
  the name; Python's \<open>$\<close> also matches just before a newline that ends the string.
\<close>

definition is_digit :: "char \<Rightarrow> bool" where
  "is_digit c \<longleftrightarrow> c \<in> set ''0123456789''"

definition digits_after_underscore :: "string \<Rightarrow> string option" where
  "digits_after_underscore s =
     (let d = rev (takeWhile is_digit (rev s));
          p = rev (dropWhile is_digit (rev s))
      in if d \<noteq> [] \<and> p \<noteq> [] \<and> last p = CHR ''_'' then Some d else None)"

definition re_search_number :: "string \<Rightarrow> string option" where
  "re_search_number s =
     (case digits_after_underscore s of
        Some d \<Rightarrow> Some d
      | None \<Rightarrow> if s \<noteq> [] \<and> last s = CHR 0x0A
                then digits_after_underscore (butlast s) else None)"

text \<open>
  The dictionary \<open>bn_layers\<close> maps a convolution name to a layer object of \<open>self.layers\<close>.
  The model stores the reference as the position of that object in the list, and reads the
  object from the list where the source dereferences it. A later normalization layer
  overwrites the entry of an earlier one with the same key.
\<close>

definition bn_layers_step :: "nat \<times> LayerInfo \<Rightarrow> (string \<rightharpoonup> nat) \<Rightarrow> (string \<rightharpoonup> nat)" where
  "bn_layers_step = (\<lambda>(pos, layer) bn_layers.
     if type layer = ''batch_normalization'' then
       (case re_search_number (name layer) of
          Some num \<Rightarrow> bn_layers(''conv2d_'' @ num \<mapsto> pos, ''convolutional_'' @ num \<mapsto> pos)
        | None \<Rightarrow> if name layer = ''batch_normalization''
                  then bn_layers(''conv2d'' \<mapsto> pos) else bn_layers)
     else bn_layers)"

definition build_bn_layers :: "LayerInfo list \<Rightarrow> (string \<rightharpoonup> nat)" where
  "build_bn_layers ls = fold bn_layers_step (enumerate 0 ls) Map.empty"

text \<open>
  \<open>ndarray.any()\<close>: some element is non-zero. Both zeros of float32 (\<open>+0.0\<close>, all bits
  clear, and \<open>-0.0\<close>, only the sign bit set) are false; every other bit pattern is true.
\<close>

definition ndarray_any :: "ndarray \<Rightarrow> bool" where
  "ndarray_any a = list_ex (\<lambda>x. x \<noteq> 0 \<and> x \<noteq> 0x80000000) a"

text \<open>The assignments under \<open>if bn_layer:\<close> (a dataclass instance is always true).\<close>

definition fuse :: "LayerInfo \<Rightarrow> LayerInfo \<Rightarrow> LayerInfo" where
  "fuse current bn_layer =
     current\<lparr> batch_normalize := True,
              bn_gamma := bn_gamma bn_layer,
              bn_beta := bn_beta bn_layer,
              bn_mean := bn_mean bn_layer,
              bn_variance := bn_variance bn_layer,
              biases := (case biases current of
                           None \<Rightarrow> bn_beta bn_layer
                         | Some b \<Rightarrow> if ndarray_any b then Some b else bn_beta bn_layer) \<rparr>"

text \<open>
  The partner of the layer at position \<open>i\<close>: the dictionary entry of its name, and
  otherwise the next list element when that is a normalization layer.
\<close>

definition find_bn :: "(string \<rightharpoonup> nat) \<Rightarrow> LayerInfo list \<Rightarrow> nat \<Rightarrow> nat option" where
  "find_bn bn_layers ls i =
     (case bn_layers (name (ls ! i)) of
        Some p \<Rightarrow> Some p
      | None \<Rightarrow> if i + 1 < length ls \<and> type (ls ! (i + 1)) = ''batch_normalization''
                then Some (i + 1) else None)"

definition match_step :: "(string \<rightharpoonup> nat) \<Rightarrow> nat \<Rightarrow> LayerInfo list \<Rightarrow> LayerInfo list" where
  "match_step bn_layers i ls =
     (if type (ls ! i) = ''convolutional'' then
        (case find_bn bn_layers ls i of
           Some p \<Rightarrow> ls[i := fuse (ls ! i) (ls ! p)]
         | None \<Rightarrow> ls)
      else ls)"

text \<open>
  \<open>_match_conv_bn_pairs\<close>: the dictionary is built from the list, then the loop
  \<open>for i in range(len(self.layers))\<close> updates the list in place. The result is
  \<open>self.layers\<close>, which \<open>parse_layers\<close> returns. The elements of the list are distinct
  objects, one per parsed Keras layer, so that assigning to the fields of one element
  changes that position of the list and no other.
\<close>

definition match_conv_bn_pairs :: "LayerInfo list \<Rightarrow> LayerInfo list" where
  "match_conv_bn_pairs ls = fold (match_step (build_bn_layers ls)) [0..<length ls] ls"

section \<open>Text configuration emitter (\<open>cfg_generator.py\<close>)\<close>

text \<open>\<open>str\<close> of an integer, and of an optional integer (\<open>None\<close> prints as \<open>None\<close>).\<close>

definition digit_char :: "nat \<Rightarrow> char" where
  "digit_char d = ''0123456789'' ! d"

fun str_nat :: "nat \<Rightarrow> string" where
  "str_nat n = (if n < 10 then [digit_char n] else str_nat (n div 10) @ [digit_char (n mod 10)])"

declare str_nat.simps [simp del]

definition str_int :: "int \<Rightarrow> string" where
  "str_int i = (if i < 0 then CHR ''-'' # str_nat (nat (- i)) else str_nat (nat i))"

definition str_opt :: "int option \<Rightarrow> string" where
  "str_opt x = (case x of None \<Rightarrow> ''None'' | Some i \<Rightarrow> str_int i)"

definition nl :: string where
  "nl = [CHR 0x0A]"

text \<open>
  Each \<open>write_*\<close> method appends to the text file; the model returns the text it appends.
  \<open>write_net_section\<close> receives \<open>momentum\<close> and \<open>decay\<close> as floats; \<open>generate\<close> always
  leaves them at their defaults, which print as \<open>0.9\<close> and \<open>0.0005\<close>, so the model takes
  their printed form.
\<close>

definition write_net_section :: "int \<times> int \<times> int \<Rightarrow> int \<Rightarrow> int \<Rightarrow> string \<Rightarrow> string \<Rightarrow> string" where
  "write_net_section input_shape batch subdivisions momentum decay =
     (case input_shape of (height, width, chans) \<Rightarrow>
        ''[net]'' @ nl
        @ ''batch='' @ str_int batch @ nl
        @ ''subdivisions='' @ str_int subdivisions @ nl
        @ ''width='' @ str_int width @ nl
        @ ''height='' @ str_int height @ nl
        @ ''channels='' @ str_int chans @ nl
        @ ''momentum='' @ momentum @ nl
        @ ''decay='' @ decay @ nl
        @ nl)"

definition truthy :: "int option \<Rightarrow> bool" where
  "truthy x = (case x of None \<Rightarrow> False | Some i \<Rightarrow> i \<noteq> 0)"

definition map_activation :: "string option \<Rightarrow> string" where
  "map_activation a =
     (if a = Some ''linear'' then ''linear''
      else if a \<in> {Some ''relu'', Some ''leaky'', Some ''leaky_relu''} then ''leaky''
      else ''linear'')"

definition write_convolutional_section :: "LayerInfo \<Rightarrow> string" where
  "write_convolutional_section layer =
     ''[convolutional]'' @ nl
     @ (if batch_normalize layer then ''batch_normalize=1'' @ nl else [])
     @ ''filters='' @ str_opt (filters layer) @ nl
     @ ''size='' @ str_opt (kernel_size layer) @ nl
     @ ''stride='' @ str_opt (stride layer) @ nl
     @ ''pad='' @ (if truthy (padding layer) then ''1'' else ''0'') @ nl
     @ (case groups layer of
          Some g \<Rightarrow> if g > 1 then ''groups='' @ str_int g @ nl else []
        | None \<Rightarrow> [])
     @ ''activation='' @ map_activation (activation layer) @ nl
     @ nl"

definition write_maxpool_layer :: "LayerInfo \<Rightarrow> string" where
  "write_maxpool_layer layer =
     ''[maxpool]'' @ nl
     @ ''size='' @ str_opt (pool_size layer) @ nl
     @ ''stride='' @ str_opt (pool_stride layer) @ nl
     @ nl"

definition write_upsample_layer :: "LayerInfo \<Rightarrow> string" where
  "write_upsample_layer layer =
     ''[upsample]'' @ nl
     @ ''stride='' @ str_opt (stride layer) @ nl
     @ nl"

fun join_comma :: "string list \<Rightarrow> string" where
  "join_comma [] = []"
| "join_comma [s] = s"
| "join_comma (s # t # ss) = s @ '', '' @ join_comma (t # ss)"

definition write_route_layer :: "LayerInfo \<Rightarrow> string" where
  "write_route_layer layer =
     ''[route]'' @ nl
     @ (case layers layer of
          Some (l # ls) \<Rightarrow> ''layers='' @ join_comma (map str_int (l # ls)) @ nl
        | _ \<Rightarrow> ''layers=-1'' @ nl)
     @ nl"

definition write_shortcut_layer :: "LayerInfo \<Rightarrow> string" where
  "write_shortcut_layer layer =
     ''[shortcut]'' @ nl
     @ (case layers layer of
          Some (l # ls) \<Rightarrow> ''from='' @ str_int l @ nl
        | _ \<Rightarrow> ''from=-3'' @ nl)
     @ ''activation=linear'' @ nl
     @ nl"

definition write_yolo_layer :: "int \<Rightarrow> string option \<Rightarrow> string option \<Rightarrow> string" where
  "write_yolo_layer num_classes anchors mask' =
     ''[yolo]'' @ nl
     @ (case mask' of
          Some (c # cs) \<Rightarrow> ''mask='' @ (c # cs) @ nl
        | _ \<Rightarrow> ''mask=6,7,8'' @ nl)
     @ (case anchors of
          Some (c # cs) \<Rightarrow> ''anchors='' @ (c # cs) @ nl
        | _ \<Rightarrow> ''anchors=10,13, 16,30, 33,23, 30,61, 62,45, 59,119, 116,90, 156,198, 373,326'' @ nl)
     @ ''classes='' @ str_int num_classes @ nl
     @ ''num=9'' @ nl
     @ ''jitter=.3'' @ nl
     @ ''ignore_thresh=.5'' @ nl
     @ ''truth_thresh=1'' @ nl
     @ ''random=1'' @ nl
     @ nl"

text \<open>\<open>write_layer\<close>: the \<open>if\<close>/\<open>elif\<close> chain; no branch for any other type.\<close>

definition write_layer :: "LayerInfo \<Rightarrow> string" where
  "write_layer layer =
     (if type layer = ''convolutional'' then write_convolutional_section layer
      else if type layer = ''maxpool'' then write_maxpool_layer layer
      else if type layer = ''upsample'' then write_upsample_layer layer
      else if type layer = ''route'' then write_route_layer layer
      else if type layer = ''shortcut'' then write_shortcut_layer layer
      else [])"

definition generate :: "LayerInfo list \<Rightarrow> int \<times> int \<times> int \<Rightarrow> int \<Rightarrow> int \<Rightarrow> string" where
  "generate ls input_shape batch subdivisions =
     write_net_section input_shape batch subdivisions ''0.9'' ''0.0005''
     @ concat (map write_layer (filter (\<lambda>l. type l \<noteq> ''batch_normalization'') ls))"

section \<open>The declared shape of a convolution\<close>

text \<open>
  The specification relates the weights buffer of a convolution to its declared shape:
  \<open>filterCount \<times> inputChannels/groupCount \<times> kernelSize\<^sup>2\<close> elements. This definition follows
  the specification's words; no function of the source computes this number.
\<close>

definition declared_weight_count :: "LayerInfo \<Rightarrow> int option" where
  "declared_weight_count layer =
     (case (filters layer, channels layer, groups layer, kernel_size layer) of
        (Some f, Some c, Some g, Some k) \<Rightarrow> Some (f * (c div g) * k * k)
      | _ \<Rightarrow> None)"

section \<open>Example inputs\<close>

text \<open>
  A writer as \<open>__init__\<close> leaves it, and the writer that \<open>open()\<close> makes of it: an open
  handle on an empty file.
\<close>

definition init_writer :: DarknetWeightsWriter where
  "init_writer = \<lparr> file_handle = False, output_file = [], total_bytes_written = 0 \<rparr>"

definition opened_writer :: DarknetWeightsWriter where
  "opened_writer = \<lparr> file_handle = True, output_file = [], total_bytes_written = 0 \<rparr>"

text \<open>
  A \<open>1 \<times> 1\<close> convolution with two filters over one input channel, as \<open>_parse_conv2d\<close>
  builds it: two weights (\<open>1.0\<close>, \<open>2.0\<close>) and two biases (\<open>3.0\<close>, \<open>0.0\<close>), given by their
  float32 bit patterns.
\<close>

definition conv_2x1 :: LayerInfo where
  "conv_2x1 = (LayerInfo_default ''conv2d_1'' ''convolutional'' 0)
     \<lparr> filters := Some 2, channels := Some 1, kernel_size := Some 1, stride := Some 1,
       padding := Some 0, groups := Some 1, activation := Some ''linear'',
       weights := Some [0x3F800000, 0x40000000],
       biases := Some [0x40400000, 0] \<rparr>"

text \<open>The same convolution flagged as normalized, with a scale array of the wrong length.\<close>

definition conv_short_scale :: LayerInfo where
  "conv_short_scale = conv_2x1
     \<lparr> batch_normalize := True,
       bn_gamma := Some [0x3F800000],
       bn_beta := Some [0, 0],
       bn_mean := Some [0, 0],
       bn_variance := Some [0x3F800000, 0x3F800000] \<rparr>"

text \<open>The same convolution with three weights, one more than its declared shape holds.\<close>

definition conv_extra_weight :: LayerInfo where
  "conv_extra_weight = conv_2x1 \<lparr> weights := Some [0x3F800000, 0x40000000, 0x40400000] \<rparr>"

text \<open>The same convolution flagged as normalized, with every array but the shift.\<close>

definition conv_no_shift :: LayerInfo where
  "conv_no_shift = conv_2x1
     \<lparr> batch_normalize := True,
       bn_gamma := Some [0x3F800000, 0x3F800000],
       bn_beta := None,
       bn_mean := Some [0, 0],
       bn_variance := Some [0x3F800000, 0x3F800000] \<rparr>"

text \<open>The same convolution flagged as normalized, without the running mean.\<close>

definition conv_no_mean :: LayerInfo where
  "conv_no_mean = conv_no_shift \<lparr> bn_beta := Some [0, 0], bn_mean := None \<rparr>"

text \<open>The same convolution without biases.\<close>

definition conv_no_biases :: LayerInfo where
  "conv_no_biases = conv_2x1 \<lparr> biases := None \<rparr>"

text \<open>
  A parsed model of four Keras layers: a convolution named \<open>conv2d_7\<close> (model index 0), a
  convolution named \<open>head\<close> without biases (index 1), an activation layer (index 2, which
  \<open>_parse_single_layer\<close> skips) and a normalization layer named
  \<open>batch_normalization_7\<close> (index 3).
\<close>

definition conv_named :: LayerInfo where
  "conv_named = conv_2x1 \<lparr> name := ''conv2d_7'' \<rparr>"

definition conv_head :: LayerInfo where
  "conv_head = conv_2x1 \<lparr> name := ''head'', index := 1, biases := None \<rparr>"

definition bn_7 :: LayerInfo where
  "bn_7 = (LayerInfo_default ''batch_normalization_7'' ''batch_normalization'' 3)
     \<lparr> bn_gamma := Some [0x3F800000, 0x3F800000],
       bn_beta := Some [0x40000000, 0x40400000],
       bn_mean := Some [0, 0],
       bn_variance := Some [0x3F800000, 0x3F800000] \<rparr>"

definition parsed_layers :: "LayerInfo list" where
  "parsed_layers = [conv_named, conv_head, bn_7]"

text \<open>A detection record: a layer of type \<open>yolo\<close> with no other field set.\<close>

definition yolo_layer :: LayerInfo where
  "yolo_layer = LayerInfo_default ''yolo_1'' ''yolo'' 0"

section \<open>Facts about the byte encodings\<close>

text \<open>
  Reading back what \<open>le_bytes\<close> wrote gives the number modulo \<open>256 ^ n\<close>; within the
  range of the signed type, \<open>signed_of\<close> recovers the number itself.
\<close>

lemma length_le_bytes [simp]: "length (le_bytes n x) = n"
  by (simp add: le_bytes_def)

lemma le_bytes_Suc: "le_bytes (Suc n) x = word_of_int x # le_bytes n (x div 256)"
proof -
  have "map (\<lambda>i. word_of_int (x div 256 ^ i) :: byte) [0..<Suc n]
        = word_of_int x # map (\<lambda>i. word_of_int (x div 256 ^ Suc i)) [0..<n]"
    by (simp only: map_Suc_upt [symmetric] upt_rec [of 0 "Suc n"] list.map) simp
  moreover have "x div 256 ^ Suc i = x div 256 div 256 ^ i" for i
    by (simp add: zdiv_zmult2_eq)
  ultimately show ?thesis
    by (simp add: le_bytes_def)
qed

lemma le_int_le_bytes: "le_int (le_bytes n x) = x mod 256 ^ n"
proof (induction n arbitrary: x)
  case 0
  show ?case by (simp add: le_bytes_def le_int_def)
next
  case (Suc n)
  have "le_int (le_bytes (Suc n) x)
        = uint (word_of_int x :: byte) + 256 * le_int (le_bytes n (x div 256))"
    by (simp add: le_bytes_Suc le_int_def)
  also have "\<dots> = x mod 256 + 256 * (x div 256 mod 256 ^ n)"
    by (simp add: Suc.IH uint_word_of_int take_bit_eq_mod)
  also have "\<dots> = x mod 256 ^ Suc n"
    using zmod_zmult2_eq [of "256 ^ n" x 256] by simp
  finally show ?case .
qed

lemma mod_in_range:
  fixes x m :: int
  assumes "- m \<le> x" "x < m" "0 < m"
  shows "x mod (2 * m) = (if x < 0 then x + 2 * m else x)"
proof (cases "x < 0")
  case True
  have "(x + 2 * m) mod (2 * m) = x + 2 * m"
    using assms True by (intro mod_pos_pos_trivial) linarith+
  moreover have "(x + 2 * m) mod (2 * m) = x mod (2 * m)"
    by (rule mod_add_self2)
  ultimately show ?thesis using True by simp
next
  case False
  have "x mod (2 * m) = x"
    using assms False by (intro mod_pos_pos_trivial) linarith+
  then show ?thesis using False by simp
qed

lemma signed_of_4: "in_int32 x \<Longrightarrow> signed_of 4 (le_int (le_bytes 4 x)) = x"
proof -
  assume r: "in_int32 x"
  have "le_int (le_bytes 4 x) = x mod (2 * 2147483648)"
    by (simp add: le_int_le_bytes)
  also have "\<dots> = (if x < 0 then x + 2 * 2147483648 else x)"
    using r by (intro mod_in_range) (simp_all add: in_int32_def)
  finally have m: "le_int (le_bytes 4 x) = (if x < 0 then x + 4294967296 else x)"
    by simp
  have s: "signed_of 4 u = (if 2147483648 \<le> u then u - 4294967296 else u)" for u
    by (simp add: signed_of_def)
  from r show ?thesis
    unfolding m s in_int32_def by simp
qed

lemma signed_of_8: "in_int64 x \<Longrightarrow> signed_of 8 (le_int (le_bytes 8 x)) = x"
proof -
  assume r: "in_int64 x"
  have "le_int (le_bytes 8 x) = x mod (2 * 9223372036854775808)"
    by (simp add: le_int_le_bytes)
  also have "\<dots> = (if x < 0 then x + 2 * 9223372036854775808 else x)"
    using r by (intro mod_in_range) (simp_all add: in_int64_def)
  finally have m: "le_int (le_bytes 8 x) = (if x < 0 then x + 18446744073709551616 else x)"
    by simp
  have s: "signed_of 8 u = (if 9223372036854775808 \<le> u then u - 18446744073709551616 else u)" for u
    by (simp add: signed_of_def)
  from r show ?thesis
    unfolding m s in_int64_def by simp
qed

lemma le_bytes_0: "le_bytes 0 x = []"
  by (simp add: le_bytes_def)

lemma le_bytes_numeral:
  "le_bytes (numeral k) x = word_of_int x # le_bytes (pred_numeral k) (x div 256)"
  by (simp only: numeral_eq_Suc le_bytes_Suc)

lemmas le_bytes_eval = le_bytes_0 le_bytes_Suc le_bytes_numeral

lemma tofile_Nil: "tofile [] = []"
  by (simp add: tofile_def)

lemma tofile_Cons: "tofile (x # a) = le_bytes 4 (uint x) @ tofile a"
  by (simp add: tofile_def)

lemmas tofile_eval = tofile_Nil tofile_Cons le_bytes_eval

lemma length_tofile: "length (tofile a) = 4 * length a"
  by (induction a) (simp_all add: tofile_Nil tofile_Cons)

lemma tofile_zeros: "tofile (replicate k 0) = replicate (4 * k) 0"
proof (induction k)
  case 0
  show ?case by (simp add: tofile_Nil)
next
  case (Suc k)
  have "4 * Suc k = Suc (Suc (Suc (Suc (4 * k))))" by simp
  then have "replicate (4 * Suc k) (0 :: byte) = 0 # 0 # 0 # 0 # replicate (4 * k) 0"
    by (simp only: replicate_Suc)
  with Suc show ?case by (simp add: tofile_eval)
qed

lemma length_fromfile_int:
  "length (fst (fromfile_int w count bs)) = min count (length bs div w)"
  by (simp add: fromfile_int_def Let_def)

lemma fromfile_int_nth:
  "j < min count (length bs div w) \<Longrightarrow>
   fst (fromfile_int w count bs) ! j = signed_of w (le_int (take w (drop (j * w) bs)))"
  by (simp add: fromfile_int_def Let_def)

lemma snd_fromfile_int:
  "snd (fromfile_int w count bs) = drop (min count (length bs div w) * w) bs"
  by (simp add: fromfile_int_def Let_def)

lemma output_file_emit [simp]: "output_file (emit bs w) = output_file w @ bs"
  by (simp add: emit_def)

text \<open>
  Unfolding sets for the example inputs and for the body of \<open>write_convolutional_layer\<close>.
\<close>

lemmas layer_examples =
  conv_2x1_def conv_short_scale_def conv_extra_weight_def conv_no_shift_def
  conv_no_biases_def conv_no_mean_def LayerInfo_default_def

lemmas writer_examples = opened_writer_def init_writer_def

lemma open_writer_init: "open_writer init_writer = Some opened_writer"
  by (simp add: open_writer_def writer_examples)

lemma open_writer_closed:
  "\<not> file_handle w \<Longrightarrow>
   open_writer w = Some (w\<lparr> file_handle := True, output_file := [], total_bytes_written := 0 \<rparr>)"
  by (simp add: open_writer_def)

lemmas writer_defs =
  write_convolutional_layer_def write_rest_def write_bn_def write_weights_def
  get_biases_def zeros_def shape0_differs_def

section \<open>The header: writer and reader\<close>

lemma verify_short:
  "length f < 20 \<Longrightarrow> verify_darknet_weights_header f = Inl ValueError_header_too_short"
proof -
  assume "length f < 20"
  then have "length f div 4 < 5" by simp
  then have "length (fst (fromfile_int 4 5 f)) < 5"
    by (simp add: length_fromfile_int)
  then show ?thesis
    by (simp add: verify_darknet_weights_header_def Let_def)
qed

lemma verify_reads_header:
  assumes r: "in_int32 major" "in_int32 minor" "in_int32 revision"
    and s: "if major * 10 + minor \<ge> 2 then in_int64 seen else in_int32 seen"
    and f: "f = le_bytes 4 major @ le_bytes 4 minor @ le_bytes 4 revision
                @ le_bytes (if major * 10 + minor \<ge> 2 then 8 else 4) seen @ rest"
    and len: "20 \<le> length f"
  shows "verify_darknet_weights_header f = Inr (major, minor, revision, seen)"
proof -
  from len have k: "min 5 (length f div 4) = 5" by simp
  have h0: "fst (fromfile_int 4 5 f) ! 0 = major"
    using r by (simp add: fromfile_int_nth k) (simp add: f signed_of_4)
  have "fst (fromfile_int 4 5 f) ! 1 = minor"
    using r by (simp add: fromfile_int_nth k) (simp add: f signed_of_4)
  then have h1: "fst (fromfile_int 4 5 f) ! Suc 0 = minor" by simp
  have h2: "fst (fromfile_int 4 5 f) ! 2 = revision"
    using r by (simp add: fromfile_int_nth k) (simp add: f signed_of_4)
  have hl: "\<not> length (fst (fromfile_int 4 5 f)) < 5"
    by (simp add: length_fromfile_int k)
  show ?thesis
  proof (cases "major * 10 + minor \<ge> 2")
    case True
    from len have k3: "min 3 (length f div 4) = 3" by simp
    have pos: "snd (fromfile_int 4 3 f) = le_bytes 8 seen @ rest"
      by (simp add: snd_fromfile_int k3) (simp add: f True)
    have "fst (fromfile_int 8 1 (le_bytes 8 seen @ rest)) = [seen]"
      using s True by (simp add: fromfile_int_def Let_def signed_of_8)
    with True show ?thesis
      by (simp add: verify_darknet_weights_header_def Let_def hl h0 h1 h2 pos)
  next
    case False
    have h3: "fst (fromfile_int 4 5 f) ! 3 = seen"
      using s False by (simp add: fromfile_int_nth k) (simp add: f signed_of_4)
    with False show ?thesis
      by (simp add: verify_darknet_weights_header_def Let_def hl h0 h1 h2)
  qed
qed

text \<open>
  Claim C4. Whenever \<open>write_header\<close> succeeds, the bytes it appends are the three
  version fields as 32-bit integers followed by \<open>seen\<close> in 8 bytes if
  \<open>major * 10 + minor \<ge> 2\<close> and in 4 bytes otherwise; and the reader, given these bytes
  followed by anything that brings the file to the 20 bytes it asks for, branches on the
  same test and returns the four fields that were written.
\<close>

theorem write_header_seen_width:
  assumes "write_header w major minor revision seen = (w', None)"
  shows "output_file w' = output_file w @ le_bytes 4 major @ le_bytes 4 minor @ le_bytes 4 revision
                          @ le_bytes (if major * 10 + minor \<ge> 2 then 8 else 4) seen
       \<and> length (output_file w') = length (output_file w) + 12 + (if major * 10 + minor \<ge> 2 then 8 else 4)
       \<and> (\<forall>rest. 20 \<le> length (output_file w') - length (output_file w) + length rest \<longrightarrow>
            verify_darknet_weights_header (drop (length (output_file w)) (output_file w') @ rest)
              = Inr (major, minor, revision, seen))"
proof -
  from assms have r: "in_int32 major" "in_int32 minor" "in_int32 revision"
    by (auto simp: write_header_def pack_iii_def split: if_splits)
  from assms have s: "if major * 10 + minor \<ge> 2 then in_int64 seen else in_int32 seen"
    by (auto simp: write_header_def pack_iii_def pack_i_def pack_q_def Let_def split: if_splits)
  from assms r s have out: "output_file w' = output_file w @ le_bytes 4 major @ le_bytes 4 minor
        @ le_bytes 4 revision @ le_bytes (if major * 10 + minor \<ge> 2 then 8 else 4) seen"
    by (auto simp: write_header_def pack_iii_def pack_i_def pack_q_def Let_def split: if_splits)
  have rd: "verify_darknet_weights_header (drop (length (output_file w)) (output_file w') @ rest)
              = Inr (major, minor, revision, seen)"
    if "20 \<le> length (output_file w') - length (output_file w) + length rest" for rest
    using that by (intro verify_reads_header [OF r s, where rest = rest]) (simp_all add: out)
  from out rd show ?thesis by simp
qed

text \<open>
  The two versions the specification names: \<open>major = 0, minor = 1\<close> gives a 16-byte header
  with a 4-byte \<open>seen\<close>, \<open>major = 0, minor = 2\<close> a 20-byte header with an 8-byte \<open>seen\<close>;
  both are read back.
\<close>

theorem write_header_seen_width_witness:
  "write_header opened_writer 0 1 0 5
     = (emit (le_bytes 4 5) (emit (le_bytes 4 0 @ le_bytes 4 1 @ le_bytes 4 0) opened_writer), None)
   \<and> output_file (emit (le_bytes 4 5) (emit (le_bytes 4 0 @ le_bytes 4 1 @ le_bytes 4 0) opened_writer))
     = [0, 0, 0, 0, 1, 0, 0, 0, 0, 0, 0, 0, 5, 0, 0, 0]
   \<and> write_header opened_writer 0 2 0 5
     = (emit (le_bytes 8 5) (emit (le_bytes 4 0 @ le_bytes 4 2 @ le_bytes 4 0) opened_writer), None)
   \<and> output_file (emit (le_bytes 8 5) (emit (le_bytes 4 0 @ le_bytes 4 2 @ le_bytes 4 0) opened_writer))
     = [0, 0, 0, 0, 2, 0, 0, 0, 0, 0, 0, 0, 5, 0, 0, 0, 0, 0, 0, 0]
   \<and> verify_darknet_weights_header [0, 0, 0, 0, 2, 0, 0, 0, 0, 0, 0, 0, 5, 0, 0, 0, 0, 0, 0, 0]
     = Inr (0, 2, 0, 5)
   \<and> verify_darknet_weights_header [0, 0, 0, 0, 1, 0, 0, 0, 0, 0, 0, 0, 5, 0, 0, 0, 9, 9, 9, 9]
     = Inr (0, 1, 0, 5)"
proof -
  let ?old = "emit (le_bytes 4 5) (emit (le_bytes 4 0 @ le_bytes 4 1 @ le_bytes 4 0) opened_writer)"
  let ?new = "emit (le_bytes 8 5) (emit (le_bytes 4 0 @ le_bytes 4 2 @ le_bytes 4 0) opened_writer)"
  have a: "write_header opened_writer 0 1 0 5 = (?old, None)"
    by (simp add: write_header_def writer_examples pack_iii_def pack_i_def in_int32_def Let_def)
  have b: "write_header opened_writer 0 2 0 5 = (?new, None)"
    by (simp add: write_header_def writer_examples pack_iii_def pack_q_def in_int32_def
        in_int64_def Let_def)
  have oa: "output_file ?old = [0, 0, 0, 0, 1, 0, 0, 0, 0, 0, 0, 0, 5, 0, 0, 0]"
    by (simp add: writer_examples le_bytes_eval)
  have ob: "output_file ?new = [0, 0, 0, 0, 2, 0, 0, 0, 0, 0, 0, 0, 5, 0, 0, 0, 0, 0, 0, 0]"
    by (simp add: writer_examples le_bytes_eval)
  have e: "output_file opened_writer = []"
    by (simp add: writer_examples)
  from write_header_seen_width [OF a]
  have "\<forall>rest. 20 \<le> length (output_file ?old) - length (output_file opened_writer) + length rest \<longrightarrow>
          verify_darknet_weights_header (drop (length (output_file opened_writer)) (output_file ?old) @ rest)
            = Inr (0, 1, 0, 5)"
    by blast
  then have ra: "verify_darknet_weights_header
       ([0, 0, 0, 0, 1, 0, 0, 0, 0, 0, 0, 0, 5, 0, 0, 0] @ [9, 9, 9, 9]) = Inr (0, 1, 0, 5)"
    unfolding oa e by simp
  from write_header_seen_width [OF b]
  have "\<forall>rest. 20 \<le> length (output_file ?new) - length (output_file opened_writer) + length rest \<longrightarrow>
          verify_darknet_weights_header (drop (length (output_file opened_writer)) (output_file ?new) @ rest)
            = Inr (0, 2, 0, 5)"
    by blast
  then have rb: "verify_darknet_weights_header
       ([0, 0, 0, 0, 2, 0, 0, 0, 0, 0, 0, 0, 5, 0, 0, 0, 0, 0, 0, 0] @ []) = Inr (0, 2, 0, 5)"
    unfolding ob e by simp
  from a b oa ob ra rb show ?thesis
    by simp
qed

lemma write_header_old_format:
  assumes "file_handle w" "in_int32 major" "in_int32 minor" "in_int32 revision" "in_int32 seen"
    and "major * 10 + minor < 2"
  shows "write_header w major minor revision seen
         = (emit (le_bytes 4 seen) (emit (le_bytes 4 major @ le_bytes 4 minor @ le_bytes 4 revision) w),
            None)"
  using assms by (simp add: write_header_def pack_iii_def pack_i_def Let_def)

lemma write_layers_no_conv:
  "\<forall>l \<in> set ls. type l \<noteq> ''convolutional'' \<Longrightarrow> write_layers w ls = (w, None)"
proof -
  assume "\<forall>l \<in> set ls. type l \<noteq> ''convolutional''"
  then have "filter (\<lambda>l. type l = ''convolutional'') ls = []"
    by (simp add: filter_empty_conv)
  then show ?thesis
    by (simp add: write_layers_def)
qed

lemma output_file_close: "output_file (close_writer w) = output_file w"
  by (simp add: close_writer_def)

text \<open>
  Claim C10. The reader rejects every file shorter than 20 bytes as too short, whatever
  its version fields. In particular an old-format header (\<open>major * 10 + minor < 2\<close>), which
  is 16 bytes, followed by fewer than 4 further bytes is never read back, although the
  writer produces such a file: \<open>write_model\<close>, called on a writer without an open handle
  with an old-format version and no convolutional layer, succeeds and leaves exactly those
  16 bytes in the file.
\<close>

theorem header_only_old_format_file_is_unreadable:
  "(length f < 20 \<longrightarrow>
      verify_darknet_weights_header f = Inl ValueError_header_too_short)
   \<and> (in_int32 major \<and> in_int32 minor \<and> in_int32 revision \<and> in_int32 seen
        \<and> major * 10 + minor < 2 \<and> length extra < 4 \<longrightarrow>
      verify_darknet_weights_header
        (le_bytes 4 major @ le_bytes 4 minor @ le_bytes 4 revision @ le_bytes 4 seen @ extra)
        = Inl ValueError_header_too_short
      \<and> (\<not> file_handle w \<and> (\<forall>l \<in> set ls. type l \<noteq> ''convolutional'') \<longrightarrow>
           (\<exists>w'. write_model w ls major minor revision seen = Some (w', None)
                 \<and> \<not> file_handle w'
                 \<and> output_file w'
                     = le_bytes 4 major @ le_bytes 4 minor @ le_bytes 4 revision @ le_bytes 4 seen
                 \<and> length (output_file w') = 16
                 \<and> verify_darknet_weights_header (output_file w' @ extra)
                     = Inl ValueError_header_too_short)))"
proof -
  let ?hdr = "le_bytes 4 major @ le_bytes 4 minor @ le_bytes 4 revision @ le_bytes 4 seen"
  have short: "verify_darknet_weights_header
        (le_bytes 4 major @ le_bytes 4 minor @ le_bytes 4 revision @ le_bytes 4 seen @ extra)
        = Inl ValueError_header_too_short"
    if "length extra < 4"
    using that by (intro verify_short) simp
  have wm: "\<exists>w'. write_model w ls major minor revision seen = Some (w', None)
                 \<and> \<not> file_handle w' \<and> output_file w' = ?hdr"
    if r: "in_int32 major" "in_int32 minor" "in_int32 revision" "in_int32 seen"
       "major * 10 + minor < 2"
      and c: "\<not> file_handle w" "\<forall>l \<in> set ls. type l \<noteq> ''convolutional''"
  proof -
    let ?w0 = "w\<lparr> file_handle := True, output_file := [], total_bytes_written := 0 \<rparr>"
    let ?w1 = "emit (le_bytes 4 seen)
                 (emit (le_bytes 4 major @ le_bytes 4 minor @ le_bytes 4 revision) ?w0)"
    have o: "open_writer w = Some ?w0"
      using c(1) by (rule open_writer_closed)
    have "file_handle ?w0" by simp
    from write_header_old_format [OF this r]
    have h: "write_header ?w0 major minor revision seen = (?w1, None)" .
    have "write_model w ls major minor revision seen = Some (close_writer ?w1, None)"
      by (simp add: write_model_def o h write_layers_no_conv [OF c(2)])
    moreover have "\<not> file_handle (close_writer ?w1)"
      by (simp add: close_writer_def)
    moreover have "output_file (close_writer ?w1) = ?hdr"
      by (simp add: output_file_close)
    ultimately show ?thesis by blast
  qed
  have len: "length ?hdr = 16" by simp
  show ?thesis
  proof (intro conjI impI)
    assume "length f < 20"
    then show "verify_darknet_weights_header f = Inl ValueError_header_too_short"
      by (rule verify_short)
  next
    assume "in_int32 major \<and> in_int32 minor \<and> in_int32 revision \<and> in_int32 seen
        \<and> major * 10 + minor < 2 \<and> length extra < 4"
    then show "verify_darknet_weights_header
        (le_bytes 4 major @ le_bytes 4 minor @ le_bytes 4 revision @ le_bytes 4 seen @ extra)
        = Inl ValueError_header_too_short"
      using short by blast
  next
    assume a: "in_int32 major \<and> in_int32 minor \<and> in_int32 revision \<and> in_int32 seen
        \<and> major * 10 + minor < 2 \<and> length extra < 4"
      and b: "\<not> file_handle w \<and> (\<forall>l \<in> set ls. type l \<noteq> ''convolutional'')"
    from a b wm obtain w' where w': "write_model w ls major minor revision seen = Some (w', None)"
      "\<not> file_handle w'" "output_file w' = ?hdr"
      by blast
    from a have "length extra < 4" by blast
    from short [OF this] w' len
    show "\<exists>w'. write_model w ls major minor revision seen = Some (w', None)
                 \<and> \<not> file_handle w'
                 \<and> output_file w' = ?hdr
                 \<and> length (output_file w') = 16
                 \<and> verify_darknet_weights_header (output_file w' @ extra)
                     = Inl ValueError_header_too_short"
      by (intro exI [of _ w']) simp
  qed
qed

text \<open>
  On a fresh writer, \<open>write_model\<close> with version 0.1 and no layer leaves a closed writer
  and the 16 bytes of the header in the file; the reader rejects that file, and that file
  followed by three more bytes.
\<close>

theorem header_only_old_format_file_is_unreadable_witness:
  "length [0, 0, 0, 0, 1, 0, 0, 0, 0, 0, 0, 0, 5, 0, 0, 0 :: byte] < 20
   \<and> verify_darknet_weights_header [0, 0, 0, 0, 1, 0, 0, 0, 0, 0, 0, 0, 5, 0, 0, 0]
       = Inl ValueError_header_too_short
   \<and> in_int32 0 \<and> in_int32 1 \<and> in_int32 5 \<and> (0 :: int) * 10 + 1 < 2
   \<and> length [7, 7, 7 :: byte] < 4
   \<and> \<not> file_handle init_writer
   \<and> write_model init_writer [] 0 1 0 5
       = Some (\<lparr> file_handle = False,
                 output_file = [0, 0, 0, 0, 1, 0, 0, 0, 0, 0, 0, 0, 5, 0, 0, 0],
                 total_bytes_written = 16 \<rparr>, None)
   \<and> verify_darknet_weights_header ([0, 0, 0, 0, 1, 0, 0, 0, 0, 0, 0, 0, 5, 0, 0, 0] @ [7, 7, 7])
       = Inl ValueError_header_too_short"
proof -
  let ?file = "[0, 0, 0, 0, 1, 0, 0, 0, 0, 0, 0, 0, 5, 0, 0, 0 :: byte]"
  have h: "length ?file < 20"
    "in_int32 0 \<and> in_int32 1 \<and> in_int32 0 \<and> in_int32 5 \<and> (0 :: int) * 10 + 1 < 2
       \<and> length [7, 7, 7 :: byte] < 4"
    "\<not> file_handle init_writer \<and> (\<forall>l \<in> set ([] :: LayerInfo list). type l \<noteq> ''convolutional'')"
    by (simp_all add: in_int32_def init_writer_def)
  have wm: "write_model init_writer [] 0 1 0 5
       = Some (\<lparr> file_handle = False, output_file = ?file, total_bytes_written = 16 \<rparr>, None)"
    by (simp add: write_model_def write_header_def write_layers_def pack_iii_def pack_i_def
        in_int32_def open_writer_def close_writer_def init_writer_def emit_def le_bytes_eval)
  from header_only_old_format_file_is_unreadable [of ?file 0 1 0 5 "[7, 7, 7]" init_writer "[]"] h
  have short: "verify_darknet_weights_header ?file = Inl ValueError_header_too_short"
    and ex: "\<exists>w'. write_model init_writer [] 0 1 0 5 = Some (w', None)
                 \<and> \<not> file_handle w'
                 \<and> output_file w' = le_bytes 4 0 @ le_bytes 4 1 @ le_bytes 4 0 @ le_bytes 4 5
                 \<and> length (output_file w') = 16
                 \<and> verify_darknet_weights_header (output_file w' @ [7, 7, 7])
                     = Inl ValueError_header_too_short"
    by blast+
  then obtain w' where w': "write_model init_writer [] 0 1 0 5 = Some (w', None)"
    "verify_darknet_weights_header (output_file w' @ [7, 7, 7]) = Inl ValueError_header_too_short"
    by blast
  from w'(1) wm
  have "w' = \<lparr> file_handle = False, output_file = ?file, total_bytes_written = 16 \<rparr>"
    by simp
  with w'(2) have "verify_darknet_weights_header (?file @ [7, 7, 7])
                     = Inl ValueError_header_too_short"
    by simp
  with short wm h show ?thesis
    by simp
qed

section \<open>The block of a convolution\<close>

text \<open>
  Claim C1, as the specification states it, asks that all validation of a block precedes
  its first byte. On \<open>conv_short_scale\<close> the scale array has the wrong length: the write
  fails with the scale error, and the eight bytes of the two biases are already in the
  file.
\<close>

theorem biases_written_before_scale_check:
  "output_file opened_writer = []
   \<and> snd (write_convolutional_layer opened_writer conv_short_scale)
       = Some (ValueError_scales_size_mismatch ''conv2d_1'')
   \<and> output_file (fst (write_convolutional_layer opened_writer conv_short_scale))
       = [0, 0, 64, 64, 0, 0, 0, 0]"
  by (simp add: writer_defs layer_examples writer_examples emit_def tofile_eval)

text \<open>
  Claim C1, amended. The serializer validates each array immediately before writing that
  array. A failure to obtain the biases or a biases length mismatch leaves the file as it
  was. A missing normalization array or a scale length mismatch is detected after the
  biases have been written, a running-mean mismatch after biases and scale, and a
  running-variance mismatch after biases, scale and running mean.
\<close>

theorem each_array_validated_before_its_own_write:
  assumes "file_handle w" and "type layer = ''convolutional''" and "weights layer = Some wts"
  shows "(\<forall>e. get_biases layer = Inl e \<longrightarrow> write_convolutional_layer w layer = (w, Some e))
    \<and> (\<forall>b. get_biases layer = Inr b \<and> shape0_differs b (filters layer) \<longrightarrow>
          write_convolutional_layer w layer
            = (w, Some (ValueError_biases_size_mismatch (name layer) (filters layer) (length b))))
    \<and> (\<forall>b. get_biases layer = Inr b \<and> \<not> shape0_differs b (filters layer) \<and> batch_normalize layer \<longrightarrow>
          (bn_gamma layer = None \<or> bn_mean layer = None \<or> bn_variance layer = None \<longrightarrow>
             write_convolutional_layer w layer
               = (emit (tofile b) w, Some (ValueError_bn_parameters_missing (name layer))))
        \<and> (\<forall>g m v. bn_gamma layer = Some g \<and> bn_mean layer = Some m \<and> bn_variance layer = Some v \<longrightarrow>
              (shape0_differs g (filters layer) \<longrightarrow>
                 write_convolutional_layer w layer
                   = (emit (tofile b) w, Some (ValueError_scales_size_mismatch (name layer))))
            \<and> (\<not> shape0_differs g (filters layer) \<and> shape0_differs m (filters layer) \<longrightarrow>
                 write_convolutional_layer w layer
                   = (emit (tofile g) (emit (tofile b) w),
                      Some (ValueError_mean_size_mismatch (name layer))))
            \<and> (\<not> shape0_differs g (filters layer) \<and> \<not> shape0_differs m (filters layer)
                 \<and> shape0_differs v (filters layer) \<longrightarrow>
                 write_convolutional_layer w layer
                   = (emit (tofile m) (emit (tofile g) (emit (tofile b) w)),
                      Some (ValueError_variance_size_mismatch (name layer))))))"
proof -
  have wcl: "write_convolutional_layer w layer =
      (case get_biases layer of
         Inl e \<Rightarrow> (w, Some e)
       | Inr b \<Rightarrow>
           if shape0_differs b (filters layer)
           then (w, Some (ValueError_biases_size_mismatch (name layer) (filters layer) (length b)))
           else write_rest (emit (tofile b) w) layer wts (length wts))"
    using assms by (simp add: write_convolutional_layer_def Let_def)
  show ?thesis
    unfolding wcl by (auto simp: write_rest_def write_bn_def Let_def split: option.splits)
qed

theorem each_array_validated_before_its_own_write_witness:
  "file_handle opened_writer \<and> type conv_short_scale = ''convolutional''
   \<and> weights conv_short_scale = Some [0x3F800000, 0x40000000]
   \<and> get_biases conv_short_scale = Inr [0x40400000, 0]
   \<and> \<not> shape0_differs [0x40400000, 0] (filters conv_short_scale)
   \<and> batch_normalize conv_short_scale
   \<and> bn_gamma conv_short_scale = Some [0x3F800000]
   \<and> shape0_differs [0x3F800000] (filters conv_short_scale)
   \<and> write_convolutional_layer opened_writer conv_short_scale
       = (emit (tofile [0x40400000, 0]) opened_writer,
          Some (ValueError_scales_size_mismatch (name conv_short_scale)))"
proof -
  have h: "file_handle opened_writer" "type conv_short_scale = ''convolutional''"
    "weights conv_short_scale = Some [0x3F800000, 0x40000000]"
    by (simp_all add: layer_examples writer_examples)
  have b: "get_biases conv_short_scale = Inr [0x40400000, 0]"
    "\<not> shape0_differs [0x40400000, 0] (filters conv_short_scale)"
    "batch_normalize conv_short_scale"
    "bn_gamma conv_short_scale = Some [0x3F800000]"
    "bn_mean conv_short_scale = Some [0, 0]"
    "bn_variance conv_short_scale = Some [0x3F800000, 0x3F800000]"
    "shape0_differs [0x3F800000] (filters conv_short_scale)"
    by (simp_all add: layer_examples get_biases_def shape0_differs_def)
  from each_array_validated_before_its_own_write [OF h] b h show ?thesis
    by blast
qed

text \<open>
  Claim C3. \<open>conv_extra_weight\<close> declares \<open>2 \<times> 1/1 \<times> 1\<^sup>2 = 2\<close> weights and carries three.
  The write succeeds and all three weights follow the biases in the file: \<open>num_weights\<close>
  is taken from the buffer itself, so the comparison under the comment
  \<open>Write weights\<close> compares the buffer's size with itself.
\<close>

theorem extra_weight_is_written:
  "declared_weight_count conv_extra_weight = Some 2
   \<and> map_option length (weights conv_extra_weight) = Some 3
   \<and> snd (write_convolutional_layer opened_writer conv_extra_weight) = None
   \<and> output_file (fst (write_convolutional_layer opened_writer conv_extra_weight))
       = [0, 0, 64, 64, 0, 0, 0, 0, 0, 0, 128, 63, 0, 0, 0, 64, 0, 0, 64, 64]"
  by (simp add: writer_defs layer_examples writer_examples emit_def tofile_eval
      declared_weight_count_def)

text \<open>
  The weights size mismatch is raised on no input at all.
\<close>

lemma weights_check_never_fires:
  "snd (write_convolutional_layer w layer) \<noteq> Some (ValueError_weights_size_mismatch nm a b)"
  by (auto simp: writer_defs Let_def split: option.splits sum.splits if_splits prod.splits)

lemma write_bn_missing:
  "bn_gamma layer = None \<or> bn_mean layer = None \<or> bn_variance layer = None \<Longrightarrow>
   write_bn w layer = (w, Some (ValueError_bn_parameters_missing (name layer)))"
  by (auto simp: write_bn_def split: option.splits)

text \<open>
  Claim C5, as the specification states it, counts the shift among the arrays whose
  absence is fatal. \<open>conv_no_shift\<close> is flagged as normalized and has no shift array: the
  write succeeds with all 40 bytes of the block, and \<open>validate\<close> accepts the layer.
\<close>

theorem missing_shift_is_not_checked:
  "batch_normalize conv_no_shift \<and> bn_beta conv_no_shift = None
   \<and> snd (write_convolutional_layer opened_writer conv_no_shift) = None
   \<and> length (output_file (fst (write_convolutional_layer opened_writer conv_no_shift))) = 40
   \<and> validate [conv_no_shift] (Some (416, 416, 3)) = (True, [])"
  by (simp add: writer_defs layer_examples writer_examples emit_def length_tofile
      validate_def validate_conv_def get_conv_layers_def)

text \<open>
  Claim C5, amended. For a convolution flagged as normalized, the absence of the scale,
  the running mean or the running variance is fatal: writing its block always fails, with
  the missing-parameters error once the biases have been written, and \<open>validate\<close>
  rejects every model that contains the layer. The shift array is not among the arrays
  checked.
\<close>

theorem missing_scale_mean_or_variance_is_fatal:
  assumes "batch_normalize layer"
    and "bn_gamma layer = None \<or> bn_mean layer = None \<or> bn_variance layer = None"
  shows "snd (write_convolutional_layer w layer) \<noteq> None
    \<and> (\<forall>wts b. file_handle w \<and> type layer = ''convolutional'' \<and> weights layer = Some wts
           \<and> get_biases layer = Inr b \<and> \<not> shape0_differs b (filters layer) \<longrightarrow>
         write_convolutional_layer w layer
           = (emit (tofile b) w, Some (ValueError_bn_parameters_missing (name layer))))
    \<and> (\<forall>ls input_shape. layer \<in> set ls \<and> type layer = ''convolutional'' \<longrightarrow>
         \<not> fst (validate ls input_shape))"
proof -
  have rest: "write_rest w1 layer wts k = (w1, Some (ValueError_bn_parameters_missing (name layer)))"
    for w1 wts k
    using assms by (simp add: write_rest_def write_bn_missing)
  have a: "snd (write_convolutional_layer w layer) \<noteq> None"
    by (simp add: write_convolutional_layer_def Let_def rest split: option.splits sum.splits)
  have b: "write_convolutional_layer w layer
           = (emit (tofile b) w, Some (ValueError_bn_parameters_missing (name layer)))"
    if "file_handle w" "type layer = ''convolutional''" "weights layer = Some wts"
       "get_biases layer = Inr b" "\<not> shape0_differs b (filters layer)" for wts b
    using that by (simp add: write_convolutional_layer_def Let_def rest)
  have v: "validate_conv layer \<noteq> []"
    using assms by (auto simp: validate_conv_def)
  have c: "\<not> fst (validate ls input_shape)"
    if "layer \<in> set ls" "type layer = ''convolutional''" for ls input_shape
  proof -
    from that have "layer \<in> set (get_conv_layers ls)"
      by (simp add: get_conv_layers_def)
    with v have "concat (map validate_conv (get_conv_layers ls)) \<noteq> []"
      by auto
    then show ?thesis
      by (simp add: validate_def Let_def)
  qed
  from a b c show ?thesis by blast
qed

theorem missing_scale_mean_or_variance_is_fatal_witness:
  "batch_normalize conv_no_mean \<and> bn_mean conv_no_mean = None
   \<and> file_handle opened_writer \<and> type conv_no_mean = ''convolutional''
   \<and> conv_no_mean \<in> set [conv_2x1, conv_no_mean]
   \<and> snd (write_convolutional_layer opened_writer conv_no_mean) \<noteq> None
   \<and> write_convolutional_layer opened_writer conv_no_mean
       = (emit (tofile [0x40400000, 0]) opened_writer,
          Some (ValueError_bn_parameters_missing (name conv_no_mean)))
   \<and> \<not> fst (validate [conv_2x1, conv_no_mean] (Some (416, 416, 3)))"
proof -
  have h: "batch_normalize conv_no_mean"
    "bn_gamma conv_no_mean = None \<or> bn_mean conv_no_mean = None \<or> bn_variance conv_no_mean = None"
    by (simp_all add: layer_examples)
  have g: "file_handle opened_writer" "type conv_no_mean = ''convolutional''"
    "weights conv_no_mean = Some [0x3F800000, 0x40000000]"
    "get_biases conv_no_mean = Inr [0x40400000, 0]"
    "\<not> shape0_differs [0x40400000, 0] (filters conv_no_mean)"
    "bn_mean conv_no_mean = None"
    "conv_no_mean \<in> set [conv_2x1, conv_no_mean]"
    by (simp_all add: layer_examples writer_examples get_biases_def shape0_differs_def)
  from missing_scale_mean_or_variance_is_fatal [OF h, of opened_writer] h g show ?thesis
    by blast
qed

lemma write_rest_biases_update:
  "write_rest w (layer\<lparr> biases := x \<rparr>) wts k = write_rest w layer wts k"
proof -
  have "write_bn w (layer\<lparr> biases := x \<rparr>) = write_bn w layer"
    by (simp add: write_bn_def Let_def split: option.splits)
  moreover have "write_weights w2 (layer\<lparr> biases := x \<rparr>) wts k = write_weights w2 layer wts k"
    for w2
    by (simp add: write_weights_def)
  ultimately show ?thesis
    by (simp add: write_rest_def)
qed

text \<open>
  Claim C8. For a convolution without biases and with a filter count \<open>n \<ge> 0\<close>, the
  serializer writes \<open>n\<close> zero float32 values, that is \<open>4 * n\<close> zero bytes, where the biases
  go, and then continues exactly as for the same layer with \<open>n\<close> zero biases. The absent
  biases raise nothing: the only errors left are those of the normalization arrays, and
  without normalization the write succeeds.
\<close>

theorem absent_biases_written_as_zeros:
  assumes "file_handle w" and "type layer = ''convolutional''" and "weights layer = Some wts"
    and "biases layer = None" and "filters layer = Some n" and "0 \<le> n"
  shows "write_convolutional_layer w layer
           = write_rest (emit (replicate (4 * nat n) 0) w) layer wts (length wts)
    \<and> write_convolutional_layer w layer
           = write_convolutional_layer w (layer\<lparr> biases := Some (replicate (nat n) 0) \<rparr>)
    \<and> (\<exists>rest. output_file (fst (write_convolutional_layer w layer))
                 = output_file w @ replicate (4 * nat n) 0 @ rest)
    \<and> snd (write_convolutional_layer w layer) \<in>
         {None, Some (ValueError_bn_parameters_missing (name layer)),
          Some (ValueError_scales_size_mismatch (name layer)),
          Some (ValueError_mean_size_mismatch (name layer)),
          Some (ValueError_variance_size_mismatch (name layer))}
    \<and> (\<not> batch_normalize layer \<longrightarrow>
         write_convolutional_layer w layer
           = (emit (tofile wts) (emit (replicate (4 * nat n) 0) w), None))"
proof -
  let ?w1 = "emit (replicate (4 * nat n) 0) w"
  have gb: "get_biases layer = Inr (replicate (nat n) 0)"
    using assms by (simp add: get_biases_def zeros_def)
  have sh: "\<not> shape0_differs (replicate (nat n) 0) (filters layer)"
    using assms by (simp add: shape0_differs_def)
  have a: "write_convolutional_layer w layer = write_rest ?w1 layer wts (length wts)"
    using assms by (simp add: write_convolutional_layer_def Let_def gb shape0_differs_def tofile_zeros)
  have b: "write_convolutional_layer w (layer\<lparr> biases := Some (replicate (nat n) 0) \<rparr>)
             = write_rest ?w1 layer wts (length wts)"
    using assms sh
    by (simp add: write_convolutional_layer_def Let_def get_biases_def tofile_zeros
        shape0_differs_def write_rest_biases_update)
  have pre: "\<exists>rest. output_file (fst (write_rest ?w1 layer wts (length wts)))
                      = output_file w @ replicate (4 * nat n) 0 @ rest"
    by (auto simp: write_rest_def write_bn_def write_weights_def Let_def
        split: option.splits)
  have err: "snd (write_rest ?w1 layer wts (length wts)) \<in>
         {None, Some (ValueError_bn_parameters_missing (name layer)),
          Some (ValueError_scales_size_mismatch (name layer)),
          Some (ValueError_mean_size_mismatch (name layer)),
          Some (ValueError_variance_size_mismatch (name layer))}"
    by (auto simp: write_rest_def write_bn_def write_weights_def Let_def
        split: option.splits)
  have nb: "write_rest ?w1 layer wts (length wts) = (emit (tofile wts) ?w1, None)"
    if "\<not> batch_normalize layer"
    using that by (simp add: write_rest_def write_weights_def)
  from a b pre err nb show ?thesis by simp
qed

theorem absent_biases_written_as_zeros_witness:
  "file_handle opened_writer \<and> type conv_no_biases = ''convolutional''
   \<and> biases conv_no_biases = None \<and> filters conv_no_biases = Some 2
   \<and> \<not> batch_normalize conv_no_biases
   \<and> write_convolutional_layer opened_writer conv_no_biases
       = (emit (tofile [0x3F800000, 0x40000000]) (emit (replicate 8 0) opened_writer), None)
   \<and> output_file (emit (tofile [0x3F800000, 0x40000000]) (emit (replicate 8 0) opened_writer))
       = [0, 0, 0, 0, 0, 0, 0, 0, 0, 0, 128, 63, 0, 0, 0, 64]"
proof -
  have h: "file_handle opened_writer" "type conv_no_biases = ''convolutional''"
    "weights conv_no_biases = Some [0x3F800000, 0x40000000]"
    "biases conv_no_biases = None" "filters conv_no_biases = Some 2" "(0::int) \<le> 2"
    by (simp_all add: layer_examples writer_examples)
  have nb: "\<not> batch_normalize conv_no_biases"
    by (simp add: layer_examples)
  have out: "output_file (emit (tofile [0x3F800000, 0x40000000]) (emit (replicate 8 0) opened_writer))
       = [0, 0, 0, 0, 0, 0, 0, 0, 0, 0, 128, 63, 0, 0, 0, 64]"
  proof -
    have "replicate 8 (0 :: byte) = [0, 0, 0, 0, 0, 0, 0, 0]"
      by code_simp
    then show ?thesis
      by (simp add: emit_def tofile_eval writer_examples)
  qed
  have e: "4 * nat 2 = (8 :: nat)"
    by simp
  from absent_biases_written_as_zeros [OF h]
  have "\<not> batch_normalize conv_no_biases \<longrightarrow>
        write_convolutional_layer opened_writer conv_no_biases
          = (emit (tofile [0x3F800000, 0x40000000]) (emit (replicate (4 * nat 2) 0) opened_writer), None)"
    by blast
  with nb e have "write_convolutional_layer opened_writer conv_no_biases
          = (emit (tofile [0x3F800000, 0x40000000]) (emit (replicate 8 0) opened_writer), None)"
    by simp
  with nb h out show ?thesis
    by simp
qed

section \<open>The reconciler\<close>

text \<open>
  The dictionary only holds positions of normalization layers of the list, and it depends
  on the names and types of the layers alone.
\<close>

lemma bn_layers_step_cases:
  "bn_layers_step (n, x) m nm = Some p \<Longrightarrow>
   m nm = Some p \<or> (p = n \<and> type x = ''batch_normalization'')"
  by (auto simp: bn_layers_step_def split: if_splits option.splits)

lemma fold_bn_layers_step_range:
  "fold bn_layers_step (enumerate n xs) m nm = Some p \<Longrightarrow>
   m nm = Some p \<or> (n \<le> p \<and> p < n + length xs \<and> type (xs ! (p - n)) = ''batch_normalization'')"
proof (induction xs arbitrary: n m)
  case Nil
  then show ?case by simp
next
  case (Cons x xs)
  from Cons.prems
  have "fold bn_layers_step (enumerate (Suc n) xs) (bn_layers_step (n, x) m) nm = Some p"
    by simp
  from Cons.IH [OF this]
  consider "bn_layers_step (n, x) m nm = Some p"
    | "Suc n \<le> p" "p < Suc n + length xs" "type (xs ! (p - Suc n)) = ''batch_normalization''"
    by blast
  then show ?case
  proof cases
    case 1
    from bn_layers_step_cases [OF this] show ?thesis by auto
  next
    case 2
    then have "(x # xs) ! (p - n) = xs ! (p - Suc n)"
      by (simp add: nth_Cons')
    with 2 show ?thesis by simp
  qed
qed

lemma build_bn_layers_range:
  "build_bn_layers ls nm = Some p \<Longrightarrow> p < length ls \<and> type (ls ! p) = ''batch_normalization''"
  using fold_bn_layers_step_range [of 0 ls Map.empty nm p]
  by (simp add: build_bn_layers_def)

lemma bn_layers_step_cong:
  "type x = type y \<Longrightarrow> name x = name y \<Longrightarrow> bn_layers_step (n, x) m = bn_layers_step (n, y) m"
  by (simp add: bn_layers_step_def)

lemma fold_bn_layers_step_cong:
  "map type xs = map type ys \<Longrightarrow> map name xs = map name ys \<Longrightarrow>
   fold bn_layers_step (enumerate n xs) m = fold bn_layers_step (enumerate n ys) m"
proof (induction xs arbitrary: ys n m)
  case Nil
  then show ?case by simp
next
  case (Cons x xs)
  from Cons.prems(1) obtain y ys' where ys: "ys = y # ys'"
    by (cases ys) simp_all
  from Cons.prems have t: "type x = type y" "name x = name y"
    and r: "map type xs = map type ys'" "map name xs = map name ys'"
    unfolding ys by simp_all
  have "fold bn_layers_step (enumerate n (x # xs)) m
        = fold bn_layers_step (enumerate (Suc n) xs) (bn_layers_step (n, x) m)"
    by simp
  also have "\<dots> = fold bn_layers_step (enumerate (Suc n) ys') (bn_layers_step (n, x) m)"
    by (rule Cons.IH [OF r])
  also have "\<dots> = fold bn_layers_step (enumerate (Suc n) ys') (bn_layers_step (n, y) m)"
    by (simp only: bn_layers_step_cong [OF t])
  also have "\<dots> = fold bn_layers_step (enumerate n ys) m"
    unfolding ys by simp
  finally show ?case .
qed

lemma build_bn_layers_cong:
  "map type xs = map type ys \<Longrightarrow> map name xs = map name ys \<Longrightarrow>
   build_bn_layers xs = build_bn_layers ys"
  unfolding build_bn_layers_def by (rule fold_bn_layers_step_cong)

lemma fuse_name [simp]: "name (fuse c b) = name c"
  and fuse_type [simp]: "type (fuse c b) = type c"
  and fuse_index [simp]: "index (fuse c b) = index c"
  by (simp_all add: fuse_def)

lemma fuse_idem: "fuse (fuse c b) b = fuse c b"
  by (simp add: fuse_def split: option.splits)

lemma match_step_nth:
  "i < length ls \<Longrightarrow>
   match_step M i ls ! i =
     (if type (ls ! i) = ''convolutional'' then
        (case find_bn M ls i of Some p \<Rightarrow> fuse (ls ! i) (ls ! p) | None \<Rightarrow> ls ! i)
      else ls ! i)"
  by (simp add: match_step_def split: option.splits)

lemma match_step_other:
  "type (ls ! i) \<noteq> ''convolutional'' \<Longrightarrow> match_step M i ls = ls"
  by (simp add: match_step_def)

lemma find_bn_range:
  assumes "\<And>nm p. M nm = Some p \<Longrightarrow> p < length ls \<and> type (ls ! p) = ''batch_normalization''"
    and "find_bn M ls i = Some p"
  shows "p < length ls \<and> type (ls ! p) = ''batch_normalization''"
  using assms by (auto simp: find_bn_def split: option.splits if_splits)

lemma find_bn_cong:
  assumes "length xs = length ys" "name (xs ! i) = name (ys ! i)"
    and "i + 1 < length ys \<Longrightarrow> type (xs ! (i + 1)) = type (ys ! (i + 1))"
  shows "find_bn M xs i = find_bn M ys i"
  using assms by (auto simp: find_bn_def split: option.splits)

text \<open>
  The loop invariant: after \<open>k\<close> iterations the list has its length, the positions below
  \<open>k\<close> hold what one step on the original list puts there, and the others are untouched.
  It rests on the partner always being a normalization layer, which no iteration changes.
\<close>

lemma match_loop:
  assumes M: "\<And>nm p. M nm = Some p \<Longrightarrow> p < length ls \<and> type (ls ! p) = ''batch_normalization''"
  shows "k \<le> length ls \<Longrightarrow>
    length (fold (match_step M) [0..<k] ls) = length ls
    \<and> (\<forall>j < length ls. fold (match_step M) [0..<k] ls ! j
           = (if j < k then match_step M j ls ! j else ls ! j))"
proof (induction k)
  case 0
  show ?case by simp
next
  case (Suc k)
  let ?S = "fold (match_step M) [0..<k] ls"
  from Suc have k: "k < length ls" by simp
  from Suc have len: "length ?S = length ls"
    and nth: "\<And>j. j < length ls \<Longrightarrow> ?S ! j = (if j < k then match_step M j ls ! j else ls ! j)"
    by simp_all
  have fold_Suc: "fold (match_step M) [0..<Suc k] ls = match_step M k ?S"
    by simp
  have Sk: "?S ! k = ls ! k"
    using nth [OF k] by simp
  have fb: "find_bn M ?S k = find_bn M ls k"
  proof (rule find_bn_cong)
    show "length ?S = length ls" by (rule len)
    show "name (?S ! k) = name (ls ! k)" by (simp add: Sk)
    show "type (?S ! (k + 1)) = type (ls ! (k + 1))" if "k + 1 < length ls"
      using nth [OF that] by simp
  qed
  have partner: "?S ! p = ls ! p" if "find_bn M ls k = Some p" for p
  proof -
    from find_bn_range [OF M that] have p: "p < length ls" "type (ls ! p) = ''batch_normalization''"
      by simp_all
    then have "match_step M p ls = ls"
      by (simp add: match_step_other)
    with nth [OF p(1)] show ?thesis by simp
  qed
  have step: "match_step M k ?S = ?S[k := match_step M k ls ! k]"
  proof (cases "type (ls ! k) = ''convolutional''")
    case False
    then have "match_step M k ?S = ?S" "match_step M k ls = ls"
      by (simp_all add: match_step_other Sk)
    then show ?thesis by (simp add: Sk [symmetric])
  next
    case True
    show ?thesis
    proof (cases "find_bn M ls k")
      case None
      with True have "match_step M k ?S = ?S" "match_step M k ls = ls"
        by (simp_all add: match_step_def Sk fb)
      then show ?thesis by (simp add: Sk [symmetric])
    next
      case (Some p)
      with True k show ?thesis
        by (simp add: match_step_def Sk fb partner)
    qed
  qed
  show ?case
    unfolding fold_Suc step using len nth k
    by (auto simp: nth_list_update less_Suc_eq)
qed

lemma length_match_conv_bn_pairs: "length (match_conv_bn_pairs ls) = length ls"
  using match_loop [of "build_bn_layers ls" ls "length ls"] build_bn_layers_range [of ls]
  by (simp add: match_conv_bn_pairs_def)

lemma match_conv_bn_pairs_nth:
  "i < length ls \<Longrightarrow>
   match_conv_bn_pairs ls ! i = match_step (build_bn_layers ls) i ls ! i"
  using match_loop [of "build_bn_layers ls" ls "length ls"] build_bn_layers_range [of ls]
  by (simp add: match_conv_bn_pairs_def)

lemma match_nth_fields:
  assumes "i < length ls"
  shows "name (match_conv_bn_pairs ls ! i) = name (ls ! i)"
    and "type (match_conv_bn_pairs ls ! i) = type (ls ! i)"
    and "index (match_conv_bn_pairs ls ! i) = index (ls ! i)"
  using assms by (simp_all add: match_conv_bn_pairs_nth match_step_nth split: option.splits)

lemma match_nth_other:
  "i < length ls \<Longrightarrow> type (ls ! i) \<noteq> ''convolutional'' \<Longrightarrow>
   match_conv_bn_pairs ls ! i = ls ! i"
  by (simp add: match_conv_bn_pairs_nth match_step_nth)





text \<open>
  The example model, reconciled: both convolutions are fused with the one normalization
  layer, which stays in the list.
\<close>

lemmas reconciler_examples =
  parsed_layers_def conv_named_def conv_head_def bn_7_def yolo_layer_def

lemma re_search_number_bn_7: "re_search_number ''batch_normalization_7'' = Some ''7''"
  by (simp add: re_search_number_def digits_after_underscore_def is_digit_def)

lemma build_bn_layers_parsed:
  "build_bn_layers parsed_layers = [''conv2d_7'' \<mapsto> 2, ''convolutional_7'' \<mapsto> 2]"
  by (simp add: build_bn_layers_def bn_layers_step_def reconciler_examples layer_examples
      re_search_number_bn_7 numeral_2_eq_2)

lemma parsed_layers_nth:
  "length parsed_layers = 3" "parsed_layers ! 0 = conv_named"
  "parsed_layers ! 1 = conv_head" "parsed_layers ! 2 = bn_7"
  "parsed_layers ! Suc 0 = conv_head" "parsed_layers ! Suc (Suc 0) = bn_7"
  by (simp_all add: parsed_layers_def)

lemma parsed_layers_types:
  "type conv_named = ''convolutional''" "type conv_head = ''convolutional''"
  "type bn_7 = ''batch_normalization''"
  "name conv_named = ''conv2d_7''" "name conv_head = ''head''"
  by (simp_all add: reconciler_examples layer_examples)

lemma match_parsed_layers:
  "match_conv_bn_pairs parsed_layers = [fuse conv_named bn_7, fuse conv_head bn_7, bn_7]"
proof (rule nth_equalityI)
  show "length (match_conv_bn_pairs parsed_layers) = length [fuse conv_named bn_7, fuse conv_head bn_7, bn_7]"
    by (simp add: length_match_conv_bn_pairs parsed_layers_nth)
  fix i
  assume "i < length (match_conv_bn_pairs parsed_layers)"
  then have "i < 3"
    by (simp add: length_match_conv_bn_pairs parsed_layers_nth)
  then consider "i = 0" | "i = 1" | "i = 2"
    by linarith
  then show "match_conv_bn_pairs parsed_layers ! i = [fuse conv_named bn_7, fuse conv_head bn_7, bn_7] ! i"
  proof cases
    case 1
    then show ?thesis
      by (simp add: match_conv_bn_pairs_nth match_step_nth find_bn_def build_bn_layers_parsed
          parsed_layers_nth parsed_layers_types)
  next
    case 2
    then show ?thesis
      by (simp add: match_conv_bn_pairs_nth match_step_nth find_bn_def build_bn_layers_parsed
          parsed_layers_nth parsed_layers_types)
  next
    case 3
    then show ?thesis
      by (simp add: match_conv_bn_pairs_nth match_step_nth find_bn_def build_bn_layers_parsed
          parsed_layers_nth parsed_layers_types)
  qed
qed




text \<open>
  Claim C6, as the specification states it, restricts the positional fallback to a
  Normalization record whose index is one greater than the Convolution's and that no other
  Convolution has consumed. In the example model \<open>conv2d_7\<close> is processed first and
  consumes \<open>batch_normalization_7\<close> by name; \<open>head\<close> has no entry in the dictionary and is
  then fused with the same normalization layer by adjacency, although that layer's index
  is 3 and the index of \<open>head\<close> is 1.
\<close>

theorem fallback_takes_consumed_normalization:
  "build_bn_layers parsed_layers (name conv_named) = Some 2
   \<and> match_conv_bn_pairs parsed_layers ! 0 = fuse conv_named bn_7
   \<and> build_bn_layers parsed_layers (name conv_head) = None
   \<and> match_conv_bn_pairs parsed_layers ! 1 = fuse conv_head bn_7
   \<and> batch_normalize (match_conv_bn_pairs parsed_layers ! 1)
   \<and> biases (match_conv_bn_pairs parsed_layers ! 1) = bn_beta bn_7
   \<and> index conv_head = 1 \<and> index bn_7 = 3"
  by (simp add: match_parsed_layers build_bn_layers_parsed parsed_layers_types fuse_def)
    (simp add: reconciler_examples layer_examples)

text \<open>
  Claim C6, amended. A Convolution record whose name has no entry in the dictionary is
  fused with the element that follows it in the list exactly when that element is a
  Normalization record, whatever the \<open>index\<close> fields say and whether or not another
  Convolution has been fused with that record; otherwise it is left unchanged.
\<close>

theorem positional_fallback_takes_next_list_element:
  assumes "i < length ls" and "type (ls ! i) = ''convolutional''"
    and "build_bn_layers ls (name (ls ! i)) = None"
  shows "match_conv_bn_pairs ls ! i =
           (if i + 1 < length ls \<and> type (ls ! (i + 1)) = ''batch_normalization''
            then fuse (ls ! i) (ls ! (i + 1)) else ls ! i)"
  using assms by (simp add: match_conv_bn_pairs_nth match_step_nth find_bn_def)

theorem positional_fallback_takes_next_list_element_witness:
  "(1 :: nat) < length parsed_layers \<and> type (parsed_layers ! 1) = ''convolutional''
   \<and> build_bn_layers parsed_layers (name (parsed_layers ! 1)) = None
   \<and> type (parsed_layers ! (1 + 1)) = ''batch_normalization''
   \<and> match_conv_bn_pairs parsed_layers ! 1 = fuse (parsed_layers ! 1) (parsed_layers ! (1 + 1))"
proof -
  have h: "(1 :: nat) < length parsed_layers" "type (parsed_layers ! 1) = ''convolutional''"
    "build_bn_layers parsed_layers (name (parsed_layers ! 1)) = None"
    by (simp_all add: parsed_layers_nth parsed_layers_types build_bn_layers_parsed)
  have n: "1 + 1 < length parsed_layers" "type (parsed_layers ! (1 + 1)) = ''batch_normalization''"
    by (simp_all add: parsed_layers_nth parsed_layers_types)
  from positional_fallback_takes_next_list_element [OF h] n h show ?thesis
    by simp
qed

text \<open>
  Claim C9. Running the reconciler on a sequence it has already reconciled returns that
  sequence: every record, with every field, is what the first run left.
\<close>

theorem reconciler_idempotent:
  "match_conv_bn_pairs (match_conv_bn_pairs ls) = match_conv_bn_pairs ls"
proof (rule nth_equalityI)
  let ?ys = "match_conv_bn_pairs ls"
  let ?M = "build_bn_layers ls"
  show "length (match_conv_bn_pairs ?ys) = length ?ys"
    by (rule length_match_conv_bn_pairs)
  have len: "length ?ys = length ls"
    by (rule length_match_conv_bn_pairs)
  have "map type ?ys = map type ls" "map name ?ys = map name ls"
    by (rule nth_equalityI; simp add: len match_nth_fields)+
  then have M: "build_bn_layers ?ys = ?M"
    by (rule build_bn_layers_cong)
  fix i
  assume "i < length (match_conv_bn_pairs ?ys)"
  then have i: "i < length ls" "i < length ?ys"
    by (simp_all add: length_match_conv_bn_pairs)
  have fb: "find_bn ?M ?ys i = find_bn ?M ls i"
    by (rule find_bn_cong) (simp_all add: len match_nth_fields i)
  have again: "match_conv_bn_pairs ?ys ! i = match_step ?M i ?ys ! i"
    using match_conv_bn_pairs_nth [OF i(2)] by (simp add: M)
  show "match_conv_bn_pairs ?ys ! i = ?ys ! i"
  proof (cases "type (ls ! i) = ''convolutional''")
    case False
    with i show ?thesis
      by (simp add: again match_step_nth match_nth_fields)
  next
    case True
    show ?thesis
    proof (cases "find_bn ?M ls i")
      case None
      with True i show ?thesis
        by (simp add: again match_step_nth match_nth_fields fb)
    next
      case (Some p)
      from find_bn_range [OF build_bn_layers_range Some]
      have p: "p < length ls" "type (ls ! p) = ''batch_normalization''"
        by simp_all
      then have yp: "?ys ! p = ls ! p"
        by (simp add: match_nth_other)
      from True i Some have yi: "?ys ! i = fuse (ls ! i) (ls ! p)"
        by (simp add: match_conv_bn_pairs_nth match_step_nth)
      from True i Some have "match_conv_bn_pairs ?ys ! i = fuse (?ys ! i) (?ys ! p)"
        by (simp add: again match_step_nth match_nth_fields fb)
      then show ?thesis
        by (simp add: yp yi fuse_idem)
    qed
  qed
qed

theorem reconciler_idempotent_witness:
  "match_conv_bn_pairs (match_conv_bn_pairs parsed_layers)
     = [fuse conv_named bn_7, fuse conv_head bn_7, bn_7]"
  using reconciler_idempotent [of parsed_layers] by (simp add: match_parsed_layers)

section \<open>The configuration emitter\<close>

text \<open>
  \<open>write_layer\<close> emits one section, opened by its header, for each of the five types it
  knows, and nothing for any other type. \<open>write_yolo_layer\<close> with its defaults writes the
  detection section; no function of the emitter calls it.
\<close>

lemma write_layer_section_header:
  "type layer = ''convolutional'' \<Longrightarrow> \<exists>body. write_layer layer = ''[convolutional]'' @ nl @ body"
  "type layer = ''maxpool'' \<Longrightarrow> \<exists>body. write_layer layer = ''[maxpool]'' @ nl @ body"
  "type layer = ''upsample'' \<Longrightarrow> \<exists>body. write_layer layer = ''[upsample]'' @ nl @ body"
  "type layer = ''route'' \<Longrightarrow> \<exists>body. write_layer layer = ''[route]'' @ nl @ body"
  "type layer = ''shortcut'' \<Longrightarrow> \<exists>body. write_layer layer = ''[shortcut]'' @ nl @ body"
  by (simp_all add: write_layer_def write_convolutional_section_def write_maxpool_layer_def
      write_upsample_layer_def write_route_layer_def write_shortcut_layer_def)

lemma write_layer_unknown_type:
  "type layer \<notin> {''convolutional'', ''maxpool'', ''upsample'', ''route'', ''shortcut''} \<Longrightarrow>
   write_layer layer = []"
  by (simp add: write_layer_def)

lemma write_yolo_layer_defaults:
  "write_yolo_layer 80 None None =
     ''[yolo]'' @ nl @ ''mask=6,7,8'' @ nl
     @ ''anchors=10,13, 16,30, 33,23, 30,61, 62,45, 59,119, 116,90, 156,198, 373,326'' @ nl
     @ ''classes=80'' @ nl @ ''num=9'' @ nl @ ''jitter=.3'' @ nl @ ''ignore_thresh=.5'' @ nl
     @ ''truth_thresh=1'' @ nl @ ''random=1'' @ nl @ nl"
  by (simp add: write_yolo_layer_def str_int_def str_nat.simps digit_char_def)

text \<open>
  Claim C7. For a model that consists of one detection record (type \<open>yolo\<close>),
  \<open>generate\<close> writes the \<open>[net]\<close> section and nothing else: \<open>write_layer\<close> has no branch for
  the type, so no \<open>[yolo]\<close> section is emitted for the record.
\<close>

theorem detection_record_emits_no_section:
  "type yolo_layer = ''yolo''
   \<and> write_layer yolo_layer = []
   \<and> generate [yolo_layer] (416, 416, 3) 1 1
       = ''[net]'' @ nl @ ''batch=1'' @ nl @ ''subdivisions=1'' @ nl @ ''width=416'' @ nl
         @ ''height=416'' @ nl @ ''channels=3'' @ nl @ ''momentum=0.9'' @ nl
         @ ''decay=0.0005'' @ nl @ nl"
  by (simp add: generate_def write_layer_def write_net_section_def yolo_layer_def
      LayerInfo_default_def str_int_def str_nat.simps digit_char_def)

end
